theory Spec2Isabelle
  imports Complex_Main
begin

unbundle bit_operations_syntax

section \<open>Python strings\<close>

text \<open>
  The program is Python 2: a \<open>str\<close> is a byte string and \<open>len\<close> counts bytes, so a
  \<open>str\<close> is a \<^typ>\<open>string\<close> and \<open>len\<close> is \<^const>\<open>length\<close>.
\<close>

text \<open>\<open>s.lstrip('/')\<close>: every leading occurrence of the character is removed.\<close>

definition lstrip :: "char \<Rightarrow> string \<Rightarrow> string" where
  "lstrip c s = dropWhile (\<lambda>x. x = c) s"

text \<open>\<open>sub in s\<close> on strings: \<open>sub\<close> occurs in \<open>s\<close> as a contiguous substring.\<close>

fun str_contains :: "string \<Rightarrow> string \<Rightarrow> bool" where
  "str_contains sub [] = (sub = [])"
| "str_contains sub (c # cs) = (take (length sub) (c # cs) = sub \<or> str_contains sub cs)"

text \<open>\<open>s.split(sep)\<close> for a one-character separator: never empty, one more piece than
  there are separators.\<close>

fun split :: "char \<Rightarrow> string \<Rightarrow> string list" where
  "split sep [] = [[]]"
| "split sep (c # cs) =
     (if c = sep then [] # split sep cs
      else (case split sep cs of w # ws \<Rightarrow> (c # w) # ws | [] \<Rightarrow> [[c]]))"

text \<open>\<open>s.split(sep, maxsplit)\<close>: at most \<open>maxsplit\<close> cuts, the rest of the string is
  the last piece.\<close>

fun split_max :: "char \<Rightarrow> nat \<Rightarrow> string \<Rightarrow> string list" where
  "split_max sep 0 s = [s]"
| "split_max sep (Suc n) [] = [[]]"
| "split_max sep (Suc n) (c # cs) =
     (if c = sep then [] # split_max sep n cs
      else (case split_max sep (Suc n) cs of w # ws \<Rightarrow> (c # w) # ws | [] \<Rightarrow> [[c]]))"

text \<open>\<open>s[i:j]\<close>: a negative index counts from the end, and both indices are clamped to
  the string.\<close>

definition slice_index :: "int \<Rightarrow> nat \<Rightarrow> nat" where
  "slice_index i n = (if i < 0 then nat (max 0 (i + int n)) else min (nat i) n)"

definition slice :: "int \<Rightarrow> int \<Rightarrow> 'a list \<Rightarrow> 'a list" where
  "slice i j xs =
     (let lo = slice_index i (length xs); hi = slice_index j (length xs)
      in take (hi - lo) (drop lo xs))"

section \<open>Errors\<close>

datatype errno = EACCES | ENOENT

text \<open>
  Every exception the code can raise is a value: \<open>FuseOSError\<close> and \<open>InternalError\<close>
  are raised by the program itself, the others by the interpreter (a missing dictionary
  key, a missing attribute, a name that is bound nowhere, a local read before assignment).
  The string is the offending key or name, or the message.
\<close>

datatype error =
    FuseOSError errno
  | InternalError string
  | KeyError string
  | AttributeError string
  | NameError string
  | UnboundLocalError string

section \<open>The dataset, as the program reads it\<close>

text \<open>
  A netCDF variable offers \<open>ncattrs()\<close> (the attribute names, in order),
  \<open>getncattr(name)\<close> and \<open>variable[:]\<close> (the payload); the payload is kept flattened in
  row-major order, which is all the program looks at. \<open>dataset.variables\<close> is an ordered
  dictionary from names to variables.
\<close>

record ('a, 'e) nc_variable =
  attributes :: "(string \<times> 'a) list"
  payload :: "'e list"

record ('a, 'e) nc_dataset =
  variables :: "(string \<times> ('a, 'e) nc_variable) list"

definition ncattrs :: "('a, 'e) nc_variable \<Rightarrow> string list" where
  "ncattrs var = map fst (attributes var)"

definition getncattr :: "('a, 'e) nc_variable \<Rightarrow> string \<Rightarrow> error + 'a" where
  "getncattr var name =
     (case map_of (attributes var) name of
        None \<Rightarrow> Inl (AttributeError name)
      | Some a \<Rightarrow> Inr a)"

text \<open>\<open>dataset.variables[name]\<close> and \<open>name in dataset.variables\<close>.\<close>

definition variables_getitem :: "('a, 'e) nc_dataset \<Rightarrow> string \<Rightarrow> error + ('a, 'e) nc_variable" where
  "variables_getitem ds name =
     (case map_of (variables ds) name of
        None \<Rightarrow> Inl (KeyError name)
      | Some var \<Rightarrow> Inr var)"

definition variables_contains :: "('a, 'e) nc_dataset \<Rightarrow> string \<Rightarrow> bool" where
  "variables_contains ds name = (map_of (variables ds) name \<noteq> None)"

section \<open>Data representation plugins\<close>

text \<open>
  A plugin is an object with a \<open>size\<close> method and a \<open>__call__\<close> method. The three
  classes of the program call into numpy and the interpreter (\<open>tobytes\<close>,
  \<open>numpy.char.mod\<close>, \<open>str\<close>); these are parameters of the model.
\<close>

record 'x representation =
  repr_size :: "'x \<Rightarrow> int"
  repr_call :: "'x \<Rightarrow> string"

definition VardataAsBinaryFiles_call ::
  "('e list \<Rightarrow> string) \<Rightarrow> ('a, 'e) nc_variable \<Rightarrow> string" where
  "VardataAsBinaryFiles_call tobytes variable = tobytes (payload variable)"

definition VardataAsBinaryFiles_size ::
  "('e list \<Rightarrow> string) \<Rightarrow> ('a, 'e) nc_variable \<Rightarrow> int" where
  "VardataAsBinaryFiles_size tobytes variable =
     int (length (VardataAsBinaryFiles_call tobytes variable))"

definition VardataAsBinaryFiles ::
  "('e list \<Rightarrow> string) \<Rightarrow> ('a, 'e) nc_variable representation" where
  "VardataAsBinaryFiles tobytes =
     \<lparr>repr_size = VardataAsBinaryFiles_size tobytes,
      repr_call = VardataAsBinaryFiles_call tobytes\<rparr>"

text \<open>
  \<open>''.join(numpy.char.mod('{}\n'.format(self._fmt), variable[:].flatten()))\<close>:
  \<open>char_mod\<close> takes the format and the flattened payload to one string per element.
\<close>

definition VardataAsFlatTextFiles_call ::
  "(string \<Rightarrow> 'e list \<Rightarrow> string list) \<Rightarrow> string \<Rightarrow> ('a, 'e) nc_variable \<Rightarrow> string" where
  "VardataAsFlatTextFiles_call char_mod fmt variable =
     concat (char_mod (fmt @ ''\<newline>'') (payload variable))"

definition VardataAsFlatTextFiles_size ::
  "(string \<Rightarrow> 'e list \<Rightarrow> string list) \<Rightarrow> string \<Rightarrow> ('a, 'e) nc_variable \<Rightarrow> int" where
  "VardataAsFlatTextFiles_size char_mod fmt variable =
     int (length (VardataAsFlatTextFiles_call char_mod fmt variable))"

definition VardataAsFlatTextFiles ::
  "(string \<Rightarrow> 'e list \<Rightarrow> string list) \<Rightarrow> string \<Rightarrow> ('a, 'e) nc_variable representation" where
  "VardataAsFlatTextFiles char_mod fmt =
     \<lparr>repr_size = VardataAsFlatTextFiles_size char_mod fmt,
      repr_call = VardataAsFlatTextFiles_call char_mod fmt\<rparr>"

definition AttributesAsTextFiles_call :: "('a \<Rightarrow> string) \<Rightarrow> 'a \<Rightarrow> string" where
  "AttributesAsTextFiles_call str attr = str attr @ ''\<newline>''"

definition AttributesAsTextFiles_size :: "('a \<Rightarrow> string) \<Rightarrow> 'a \<Rightarrow> int" where
  "AttributesAsTextFiles_size str attr = int (length (AttributesAsTextFiles_call str attr))"

definition AttributesAsTextFiles :: "('a \<Rightarrow> string) \<Rightarrow> 'a representation" where
  "AttributesAsTextFiles str =
     \<lparr>repr_size = AttributesAsTextFiles_size str,
      repr_call = AttributesAsTextFiles_call str\<rparr>"

section \<open>The filesystem object\<close>

text \<open>
  The fields are the instance attributes. \<open>__init__\<close> assigns \<open>dataset\<close>,
  \<open>vardata_repr\<close>, \<open>attr_repr\<close> and \<open>mount_time\<close>; \<open>access\<close> also reads
  \<open>self.dataset_file\<close>, which no code of the program assigns. That attribute is
  \<open>None\<close> while it does not exist, \<open>Some None\<close> when it holds Python's \<open>None\<close> and
  \<open>Some (Some p)\<close> when it holds the path \<open>p\<close>.
\<close>

record ('a, 'e) NCFS =
  dataset :: "('a, 'e) nc_dataset"
  vardata_repr :: "('a, 'e) nc_variable representation"
  attr_repr :: "'a representation"
  mount_time :: real
  dataset_file :: "string option option"

text \<open>\<open>NCFS.__init__\<close>; the last argument is what \<open>time.time()\<close> returns.\<close>

definition NCFS_init ::
  "('a, 'e) nc_dataset \<Rightarrow> ('a, 'e) nc_variable representation \<Rightarrow> 'a representation \<Rightarrow> real
     \<Rightarrow> ('a, 'e) NCFS" where
  "NCFS_init ds vr ar now =
     \<lparr>dataset = ds, vardata_repr = vr, attr_repr = ar, mount_time = now,
      dataset_file = None\<rparr>"

text \<open>What the program asks of the operating system: the ids of the process and
  \<open>os.access\<close>.\<close>

record host =
  getgid :: int
  getuid :: int
  os_access :: "string \<Rightarrow> int \<Rightarrow> bool"

definition X_OK :: int where "X_OK = 1"
definition R_OK :: int where "R_OK = 4"

subsection \<open>Path predicates\<close>

definition is_var_dir :: "('a, 'e) NCFS \<Rightarrow> string \<Rightarrow> bool" where
  "is_var_dir self path = variables_contains (dataset self) (lstrip CHR ''/'' path)"

definition is_var_data :: "string \<Rightarrow> bool" where
  "is_var_data path = str_contains ''DATA_REPR'' path"

definition is_var_dimensions :: "string \<Rightarrow> bool" where
  "is_var_dimensions path = str_contains ''dimensions'' path"

definition is_var_attribute :: "('a, 'e) NCFS \<Rightarrow> string \<Rightarrow> bool" where
  "is_var_attribute self path =
     (if str_contains ''.Trash'' path then False
      else \<not> (is_var_dir self path \<or> is_var_data path \<or> is_var_dimensions path))"

definition exists :: "string \<Rightarrow> bool" where
  "exists path = True"

definition is_dir :: "('a, 'e) NCFS \<Rightarrow> string \<Rightarrow> bool" where
  "is_dir self path = is_var_dir self path"

definition is_blacklisted :: "string \<Rightarrow> bool" where
  "is_blacklisted path = str_contains ''.Trash'' path"

definition is_file :: "('a, 'e) NCFS \<Rightarrow> string \<Rightarrow> bool" where
  "is_file self path = (\<not> is_dir self path)"

subsection \<open>Lookups\<close>

text \<open>\<open>path.lstrip('/').split('/', 1)[0]\<close> and \<open>path.split('/')[-1]\<close>; neither list
  is ever empty.\<close>

definition get_varname :: "string \<Rightarrow> string" where
  "get_varname path = hd (split_max CHR ''/'' 1 (lstrip CHR ''/'' path))"

definition get_attrname :: "string \<Rightarrow> string" where
  "get_attrname path = last (split CHR ''/'' path)"

definition get_variable :: "('a, 'e) NCFS \<Rightarrow> string \<Rightarrow> error + ('a, 'e) nc_variable" where
  "get_variable self path = variables_getitem (dataset self) (get_varname path)"

definition get_attribute :: "('a, 'e) NCFS \<Rightarrow> string \<Rightarrow> error + 'a" where
  "get_attribute self path =
     (case variables_getitem (dataset self) (get_varname path) of
        Inl e \<Rightarrow> Inl e
      | Inr var \<Rightarrow> getncattr var (get_attrname path))"

definition getncAttrs :: "('a, 'e) NCFS \<Rightarrow> string \<Rightarrow> error + string list" where
  "getncAttrs self path =
     (case variables_getitem (dataset self) (get_varname path) of
        Inl e \<Rightarrow> Inl e
      | Inr var \<Rightarrow> Inr (ncattrs var))"

subsection \<open>Stat records\<close>

record stat =
  st_atime :: real
  st_ctime :: real
  st_gid :: int
  st_mode :: int
  st_mtime :: real
  st_nlink :: int
  st_size :: int
  st_uid :: int

text \<open>
  \<open>makeIntoDir\<close>. The octal constants of the source are \<open>0o100000 = 32768\<close> (regular
  file), \<open>0o040000 = 16384\<close> (directory), \<open>0o400 = 256\<close>, \<open>0o100 = 64\<close>, \<open>0o40 = 32\<close>,
  \<open>0o10 = 8\<close>, \<open>0o4 = 4\<close> and \<open>0o1 = 1\<close>. In Python \<open>^\<close> binds tighter than \<open>|\<close>.
\<close>

definition read_to_exec :: "int \<times> int \<Rightarrow> stat \<Rightarrow> stat" where
  "read_to_exec i statdict =
     (if st_mode statdict AND fst i \<noteq> 0
      then statdict\<lparr>st_mode := st_mode statdict OR snd i\<rparr>
      else statdict)"

definition makeIntoDir :: "stat \<Rightarrow> stat" where
  "makeIntoDir statdict =
     fold read_to_exec [(256, 64), (32, 8), (4, 1)]
       (statdict\<lparr>st_mode := (st_mode statdict XOR 32768) OR 16384\<rparr>)"

subsection \<open>Operations\<close>

text \<open>
  Most methods start with \<open>log_call()\<close>, which writes the name and the arguments of the
  caller to the debug log and returns nothing; it has no part in any result and is left
  out.
\<close>

text \<open>The default record of \<open>getattr\<close>: a regular file, mode \<open>33188 = 0o100644\<close>.\<close>

definition default_stat :: "host \<Rightarrow> ('a, 'e) NCFS \<Rightarrow> stat" where
  "default_stat os self =
     \<lparr>st_atime = mount_time self, st_ctime = mount_time self, st_gid = getgid os,
      st_mode = 33188, st_mtime = mount_time self, st_nlink = 1, st_size = 4096,
      st_uid = getuid os\<rparr>"

definition getattr :: "host \<Rightarrow> ('a, 'e) NCFS \<Rightarrow> string \<Rightarrow> error + stat" where
  "getattr os self path0 =
     (let statdict = default_stat os self;
          path = lstrip CHR ''/'' path0
      in if path = [] then Inr (makeIntoDir statdict)
         else if is_blacklisted path then Inr statdict
         else if \<not> exists path then Inl (FuseOSError ENOENT)
         else if is_var_dir self path then Inr ((makeIntoDir statdict)\<lparr>st_size := 4096\<rparr>)
         else if is_var_attribute self path then
           (case get_attribute self path of
              Inl e \<Rightarrow> Inl e
            | Inr attr \<Rightarrow> Inr (statdict\<lparr>st_size := repr_size (attr_repr self) attr\<rparr>))
         else if is_var_data path then
           (case get_variable self path of
              Inl e \<Rightarrow> Inl e
            | Inr var \<Rightarrow> Inr (statdict\<lparr>st_size := repr_size (vardata_repr self) var\<rparr>))
         else Inl (InternalError (''getattr: unexpected path '' @ path)))"

text \<open>\<open>readdir\<close>; the names are byte strings already, so \<open>encode('utf-8')\<close> leaves
  them as they are.\<close>

definition readdir :: "('a, 'e) NCFS \<Rightarrow> string \<Rightarrow> error + string list" where
  "readdir self path0 =
     (let path = lstrip CHR ''/'' path0
      in if path = [] then Inr ([''.'', ''..''] @ map fst (variables (dataset self)))
         else if variables_contains (dataset self) path then
           (case getncAttrs self path of
              Inl e \<Rightarrow> Inl e
            | Inr local_attrs \<Rightarrow> Inr ([''.'', ''..''] @ local_attrs @ [''DATA_REPR'']))
         else Inr [''.'', ''..''])"

text \<open>
  \<open>access\<close>: reading \<open>self.dataset_file\<close> raises when the attribute does not exist;
  when it is \<open>None\<close> the local \<open>path\<close> is never assigned and \<open>os.access(path, mode)\<close>
  reads an unbound local.
\<close>

definition access :: "host \<Rightarrow> ('a, 'e) NCFS \<Rightarrow> int \<Rightarrow> error + unit" where
  "access os self mode =
     (case dataset_file self of
        None \<Rightarrow> Inl (AttributeError ''dataset_file'')
      | Some None \<Rightarrow> Inl (UnboundLocalError ''path'')
      | Some (Some path) \<Rightarrow>
          (let mode' = (if mode = X_OK then R_OK else mode)
           in if \<not> os_access os path mode' then Inl (FuseOSError EACCES) else Inr ()))"

text \<open>\<open>open\<close>: the name \<open>FuseOSOSError\<close> in the \<open>raise\<close> statement is bound nowhere, so
  evaluating it raises \<open>NameError\<close>.\<close>

definition open_ncfs :: "('a, 'e) NCFS \<Rightarrow> string \<Rightarrow> int \<Rightarrow> error + int" where
  "open_ncfs self path flags =
     (if \<not> is_file self path then Inl (NameError ''FuseOSOSError'') else Inr 0)"

definition read :: "('a, 'e) NCFS \<Rightarrow> string \<Rightarrow> int \<Rightarrow> int \<Rightarrow> error + string" where
  "read self path size' offset =
     (if is_var_attribute self path then
        (case get_attribute self path of
           Inl e \<Rightarrow> Inl e
         | Inr attr \<Rightarrow> Inr (slice offset (offset + size') (repr_call (attr_repr self) attr)))
      else if is_var_data path then
        (case get_variable self path of
           Inl e \<Rightarrow> Inl e
         | Inr var \<Rightarrow> Inr (slice offset (offset + size') (repr_call (vardata_repr self) var)))
      else Inl (InternalError (''read: unexpected path '' @ path)))"

text \<open>\<open>write\<close> assigns nothing: the object it returns with its result is the one it
  was given.\<close>

definition write_ncfs :: "('a, 'e) NCFS \<Rightarrow> string \<Rightarrow> string \<Rightarrow> int \<Rightarrow> (error + int) \<times> ('a, 'e) NCFS" where
  "write_ncfs self path data offset = (Inr (int (length data)), self)"

section \<open>Notions of the specification\<close>


text \<open>The names of netCDF variables are not empty and contain no \<open>/\<close>.\<close>

definition valid_names :: "('a, 'e) nc_dataset \<Rightarrow> bool" where
  "valid_names ds =
     list_all (\<lambda>name. name \<noteq> [] \<and> CHR ''/'' \<notin> set name) (map fst (variables ds))"

section \<open>An example dataset\<close>

text \<open>
  One variable \<open>temp\<close> with the attribute \<open>units = "K"\<close> and the payload
  \<open>[1.0, 2.0]\<close>, served as flat text with the format \<open>%.1f\<close>.
\<close>

definition temp_variable :: "(string, real) nc_variable" where
  "temp_variable = \<lparr>attributes = [(''units'', ''K'')], payload = [1, 2]\<rparr>"

definition temp_dataset :: "(string, real) nc_dataset" where
  "temp_dataset = \<lparr>variables = [(''temp'', temp_variable)]\<rparr>"

definition temp_ncfs ::
  "(string \<Rightarrow> real list \<Rightarrow> string list) \<Rightarrow> (string \<Rightarrow> string) \<Rightarrow> real \<Rightarrow> (string, real) NCFS" where
  "temp_ncfs char_mod str now =
     NCFS_init temp_dataset (VardataAsFlatTextFiles char_mod ''%.1f'')
       (AttributesAsTextFiles str) now"

text \<open>Stand-ins for the library on the values of the example: the formatter renders
  \<open>1.0\<close> and \<open>2.0\<close> with one decimal, and \<open>str\<close> of a string is the string.\<close>

definition sample_char_mod :: "string \<Rightarrow> real list \<Rightarrow> string list" where
  "sample_char_mod fmt xs = map (\<lambda>x. if x = 1 then ''1.0\<newline>'' else ''2.0\<newline>'') xs"

definition sample_str :: "string \<Rightarrow> string" where
  "sample_str s = s"

definition sample_host :: host where
  "sample_host = \<lparr>getgid = 1000, getuid = 1000, os_access = (\<lambda>path mode. True)\<rparr>"

definition sample_ncfs :: "(string, real) NCFS" where
  "sample_ncfs = temp_ncfs sample_char_mod sample_str 0"

definition sample_stat :: "int \<Rightarrow> stat" where
  "sample_stat mode =
     \<lparr>st_atime = 0, st_ctime = 0, st_gid = 1000, st_mode = mode, st_mtime = 0,
      st_nlink = 1, st_size = 4096, st_uid = 1000\<rparr>"

text \<open>
  The same variable with a second attribute, \<open>DATA_REPR_note = "raw"\<close>, whose name starts
  with the name of the data file.
\<close>

definition noted_variable :: "(string, real) nc_variable" where
  "noted_variable =
     \<lparr>attributes = [(''units'', ''K''), (''DATA_REPR_note'', ''raw'')], payload = [1, 2]\<rparr>"

definition noted_dataset :: "(string, real) nc_dataset" where
  "noted_dataset = \<lparr>variables = [(''temp'', noted_variable)]\<rparr>"

definition noted_ncfs :: "(string, real) NCFS" where
  "noted_ncfs =
     NCFS_init noted_dataset (VardataAsFlatTextFiles sample_char_mod ''%.1f'')
       (AttributesAsTextFiles sample_str) 0"

section \<open>Facts about the string operations\<close>

lemma str_contains_iff: "str_contains sub s \<longleftrightarrow> (\<exists>ys zs. s = ys @ sub @ zs)"
proof (induction s)
  case Nil
  then show ?case by auto
next
  case (Cons c cs)
  show ?case
  proof
    assume "str_contains sub (c # cs)"
    then consider "take (length sub) (c # cs) = sub" | "str_contains sub cs" by auto
    then show "\<exists>ys zs. c # cs = ys @ sub @ zs"
    proof cases
      case 1
      then have "c # cs = [] @ sub @ drop (length sub) (c # cs)"
        by (metis append_Nil append_take_drop_id)
      then show ?thesis by blast
    next
      case 2
      then obtain ys zs where "cs = ys @ sub @ zs" using Cons.IH by blast
      then have "c # cs = (c # ys) @ sub @ zs" by simp
      then show ?thesis by blast
    qed
  next
    assume "\<exists>ys zs. c # cs = ys @ sub @ zs"
    then obtain ys zs where eq: "c # cs = ys @ sub @ zs" by blast
    show "str_contains sub (c # cs)"
    proof (cases ys)
      case Nil
      then have "take (length sub) (c # cs) = sub" using eq by simp
      then show ?thesis by simp
    next
      case (Cons y ys')
      then have "cs = ys' @ sub @ zs" using eq by simp
      then have "str_contains sub cs" using Cons.IH by blast
      then show ?thesis by simp
    qed
  qed
qed

lemma str_contains_lstrip:
  assumes "str_contains sub s" and "sub \<noteq> []" and "hd sub \<noteq> c"
  shows "str_contains sub (lstrip c s)"
  using assms
proof (induction s)
  case Nil
  then show ?case by simp
next
  case (Cons a s)
  show ?case
  proof (cases "a = c")
    case True
    have "take (length sub) (a # s) \<noteq> sub"
      using Cons.prems(2,3) True by (cases sub) auto
    then have "str_contains sub s" using Cons.prems(1) by simp
    then show ?thesis using Cons.IH Cons.prems True by (simp add: lstrip_def)
  next
    case False
    then show ?thesis using Cons.prems(1) by (simp add: lstrip_def)
  qed
qed

lemma lstrip_contains_imp:
  "str_contains sub (lstrip c s) \<Longrightarrow> str_contains sub s"
  by (induction s) (auto simp: lstrip_def split: if_splits)

lemma str_contains_nonempty: "str_contains sub s \<Longrightarrow> sub \<noteq> [] \<Longrightarrow> s \<noteq> []"
  by (cases s) auto

lemma split_nonempty: "split sep s \<noteq> []"
  by (induction s) (auto split: list.splits)

lemma split_no_sep: "sep \<notin> set x \<Longrightarrow> split sep x = [x]"
  by (induction x) auto

lemma last_split: "sep \<notin> set x \<Longrightarrow> last (split sep (a @ sep # x)) = x"
proof (induction a)
  case Nil
  then show ?case by (simp add: split_no_sep)
next
  case (Cons c a)
  obtain w ws where ws: "split sep (a @ sep # x) = w # ws"
    using split_nonempty [of sep "a @ sep # x"] by (cases "split sep (a @ sep # x)") auto
  have two: "ws \<noteq> []"
  proof -
    have "length (split sep (a @ sep # x)) \<ge> 2"
      by (induction a) (auto simp: split_no_sep Cons.prems split: list.splits)
    then show ?thesis using ws by auto
  qed
  show ?case using Cons ws two by (auto split: list.splits)
qed

lemma split_max_nonempty: "split_max sep n s \<noteq> []"
  by (induction sep n s rule: split_max.induct) (auto split: list.splits)

lemma hd_split_max: "sep \<notin> set v \<Longrightarrow> hd (split_max sep (Suc n) (v @ sep # rest)) = v"
  by (induction v) (auto split: list.splits simp: split_max_nonempty)



lemma lstrip_keeps: "s \<noteq> [] \<Longrightarrow> hd s \<noteq> c \<Longrightarrow> lstrip c s = s"
  by (cases s) (auto simp: lstrip_def)

lemma lstrip_Cons_same: "lstrip c (c # s) = lstrip c s"
  by (simp add: lstrip_def)

section \<open>Facts about variable names\<close>

lemma valid_names_lookup:
  assumes "valid_names ds" and "map_of (variables ds) name = Some var"
  shows "name \<noteq> [] \<and> CHR ''/'' \<notin> set name"
proof -
  have "name \<in> set (map fst (variables ds))"
    using assms(2) by (metis map_of_eq_None_iff option.distinct(1) set_map)
  then show ?thesis using assms(1) by (auto simp: valid_names_def list_all_iff)
qed

lemma valid_names_no_slash:
  assumes "valid_names ds" and "CHR ''/'' \<in> set name"
  shows "\<not> variables_contains ds name"
proof
  assume "variables_contains ds name"
  then obtain var where "map_of (variables ds) name = Some var"
    by (auto simp: variables_contains_def)
  then show False using valid_names_lookup assms by blast
qed

section \<open>Unfolding the operations on concrete inputs\<close>

lemmas path_defs =
  is_var_attribute_def is_var_dir_def is_var_data_def is_var_dimensions_def is_blacklisted_def
  is_dir_def is_file_def exists_def variables_contains_def variables_getitem_def lstrip_def
  get_attribute_def get_variable_def getncAttrs_def get_varname_def get_attrname_def
  getncattr_def ncattrs_def

lemmas temp_defs =
  temp_ncfs_def NCFS_init_def temp_dataset_def temp_variable_def
  VardataAsFlatTextFiles_def VardataAsFlatTextFiles_size_def VardataAsFlatTextFiles_call_def
  AttributesAsTextFiles_def AttributesAsTextFiles_size_def AttributesAsTextFiles_call_def

lemmas sample_defs = sample_ncfs_def sample_host_def sample_char_mod_def sample_str_def

section \<open>Facts about the mode word\<close>

lemma mode_bits:
  "st_mode (read_to_exec (r, x) s) = (if st_mode s AND r \<noteq> 0 then st_mode s OR x else st_mode s)"
  by (simp add: read_to_exec_def)

lemma makeIntoDir_mode:
  "st_mode (makeIntoDir s) =
     (let m0 = (st_mode s XOR 32768) OR 16384;
          m1 = (if m0 AND 256 \<noteq> 0 then m0 OR 64 else m0);
          m2 = (if m1 AND 32 \<noteq> 0 then m1 OR 8 else m1)
      in if m2 AND 4 \<noteq> 0 then m2 OR 1 else m2)"
  by (simp add: makeIntoDir_def mode_bits Let_def)

lemma and_pow: "(m AND (2::int) ^ n \<noteq> 0) = bit m n"
  by (simp add: and_exp_eq_0_iff_not_bit)

lemma and_pow_eq: "((m::int) AND 2 ^ n = 2 ^ n) = bit m n"
proof
  assume "m AND 2 ^ n = 2 ^ n"
  then have "m AND 2 ^ n \<noteq> 0" by simp
  then show "bit m n" by (simp add: and_exp_eq_0_iff_not_bit)
next
  assume b: "bit m n"
  show "m AND 2 ^ n = 2 ^ n"
    by (rule bit_eqI) (use b in \<open>auto simp: bit_simps\<close>)
qed

lemma pow_consts:
  "(16384::int) = 2 ^ 14" "(256::int) = 2 ^ 8" "(64::int) = 2 ^ 6" "(32::int) = 2 ^ 5"
  "(8::int) = 2 ^ 3" "(4::int) = 2 ^ 2" "(1::int) = 2 ^ 0" "(32768::int) = 2 ^ 15"
  by simp_all

lemma makeIntoDir_bit14: "bit (st_mode (makeIntoDir s)) 14"
  unfolding makeIntoDir_mode Let_def
  by (simp only: pow_consts and_pow) (simp add: bit_simps)

lemma makeIntoDir_bit6:
  "bit (st_mode (makeIntoDir s)) 6 \<longleftrightarrow> bit (st_mode s) 8 \<or> bit (st_mode s) 6"
  unfolding makeIntoDir_mode Let_def
  by (simp only: pow_consts and_pow) (simp add: bit_simps)

lemma makeIntoDir_bit3:
  "bit (st_mode (makeIntoDir s)) 3 \<longleftrightarrow> bit (st_mode s) 5 \<or> bit (st_mode s) 3"
  unfolding makeIntoDir_mode Let_def
  by (simp only: pow_consts and_pow) (simp add: bit_simps)

lemma makeIntoDir_bit0:
  "bit (st_mode (makeIntoDir s)) 0 \<longleftrightarrow> bit (st_mode s) 2 \<or> bit (st_mode s) 0"
  unfolding makeIntoDir_mode Let_def
  by (simp only: pow_consts and_pow) (simp add: bit_simps)

lemmas makeIntoDir_bit = makeIntoDir_bit14 makeIntoDir_bit6 makeIntoDir_bit3 makeIntoDir_bit0

section \<open>The directory mode: \<open>makeIntoDir\<close>\<close>

text \<open>
  C3, as the specification states it, fails: for every permission class the execute bit of
  the output would be set if and only if the read bit of the input was set. The function
  only ever sets bits below the file type, so an execute bit of the input stays. For the
  mode \<open>0o100711 = 33225\<close> the group may execute (\<open>0o10 = 8\<close>) after the call and could
  not read (\<open>0o40 = 32\<close>) before it.
\<close>

theorem makeIntoDir_exec_iff_read_counterexample:
  "st_mode (makeIntoDir (sample_stat 33225)) AND 8 = 8 \<and> st_mode (sample_stat 33225) AND 32 = 0"
  by (simp add: makeIntoDir_def read_to_exec_def sample_stat_def)

text \<open>
  C3, amended: for every input mode word, the output has the directory bit
  (\<open>0o040000 = 16384\<close>) set, and for each of owner, group and other the execute bit
  (\<open>0o100\<close>, \<open>0o10\<close>, \<open>0o1\<close>) is set in the output if and only if the read bit
  (\<open>0o400\<close>, \<open>0o40\<close>, \<open>0o4\<close>) of that class or the execute bit itself was set in the
  input.
\<close>

theorem makeIntoDir_mode_bits:
  "st_mode (makeIntoDir s) AND 16384 = 16384
   \<and> ((st_mode (makeIntoDir s) AND 64 = 64) \<longleftrightarrow> (st_mode s AND 256 = 256 \<or> st_mode s AND 64 = 64))
   \<and> ((st_mode (makeIntoDir s) AND 8 = 8) \<longleftrightarrow> (st_mode s AND 32 = 32 \<or> st_mode s AND 8 = 8))
   \<and> ((st_mode (makeIntoDir s) AND 1 = 1) \<longleftrightarrow> (st_mode s AND 4 = 4 \<or> st_mode s AND 1 = 1))"
proof -
  have b: "\<And>m::int. (m AND 16384 = 16384) = bit m 14" "\<And>m::int. (m AND 256 = 256) = bit m 8"
   "\<And>m::int. (m AND 64 = 64) = bit m 6"
   "\<And>m::int. (m AND 32 = 32) = bit m 5"
   "\<And>m::int. (m AND 8 = 8) = bit m 3"
   "\<And>m::int. (m AND 4 = 4) = bit m 2"
   "\<And>m::int. (m AND 1 = 1) = bit m 0"
    using and_pow_eq [of _ 14] and_pow_eq [of _ 8] and_pow_eq [of _ 6] and_pow_eq [of _ 5] and_pow_eq [of _ 3] and_pow_eq [of _ 2] and_pow_eq [of _ 0]
    by simp_all
  show ?thesis by (simp only: b makeIntoDir_bit)
qed

section \<open>Sizes of the representations\<close>

text \<open>
  C4: for each of the three representation plugins (binary variable data, flat-text
  variable data, attribute text) and every value it is given, the number \<open>size\<close> reports
  is the length in bytes of what \<open>__call__\<close> returns for that value.
\<close>

theorem size_is_length_of_call:
  "repr_size (VardataAsBinaryFiles tobytes) v1
     = int (length (repr_call (VardataAsBinaryFiles tobytes) v1))
   \<and> repr_size (VardataAsFlatTextFiles char_mod fmt) v2
     = int (length (repr_call (VardataAsFlatTextFiles char_mod fmt) v2))
   \<and> repr_size (AttributesAsTextFiles str) attr
     = int (length (repr_call (AttributesAsTextFiles str) attr))"
  by (simp add: VardataAsBinaryFiles_def VardataAsBinaryFiles_size_def
      VardataAsFlatTextFiles_def VardataAsFlatTextFiles_size_def
      AttributesAsTextFiles_def AttributesAsTextFiles_size_def)

section \<open>The access check\<close>

text \<open>
  Had \<open>dataset_file\<close> been assigned a path, \<open>access\<close> would do what its body is written
  for: check the file, an execute check turned into a read check, and raise \<open>EACCES\<close>
  exactly when \<open>os.access\<close> says no.
\<close>

lemma access_of_dataset_file:
  "dataset_file self = Some (Some p) \<Longrightarrow>
     access os self mode =
       (if os_access os p (if mode = X_OK then R_OK else mode) then Inr ()
        else Inl (FuseOSError EACCES))"
  by (simp add: access_def)

text \<open>
  C10 on the code: an object built by \<open>__init__\<close> has no attribute \<open>dataset_file\<close>, so
  for every mode, whatever the operating system says about the file, \<open>access\<close> raises
  \<open>AttributeError\<close> before any check is made.
\<close>

theorem access_raises_AttributeError:
  "access os (NCFS_init ds vr ar now) mode = Inl (AttributeError ''dataset_file'')"
  by (simp add: access_def NCFS_init_def)

section \<open>Attribute paths\<close>

text \<open>
  C1 on the code: the variable \<open>temp\<close> has the attribute \<open>DATA_REPR_note\<close>, \<open>readdir\<close>
  lists it in \<open>/temp\<close>, and \<open>get_attribute\<close> finds its value \<open>raw\<close> from the path
  \<open>/temp/DATA_REPR_note\<close>, whose attribute representation has 4 bytes. The second
  segment is neither \<open>DATA_REPR\<close> nor \<open>dimensions\<close> and the path has no \<open>.Trash\<close> in it.
  Yet \<open>is_var_attribute\<close> rejects the path, because \<open>is_var_data\<close> finds \<open>DATA_REPR\<close>
  inside it: \<open>getattr\<close> reports the 8 bytes of the data representation and \<open>read\<close>
  returns the data, not the attribute.
\<close>

theorem listed_attribute_served_as_data:
  "variables_contains (dataset noted_ncfs) ''temp''
   \<and> ''DATA_REPR_note'' \<noteq> ''DATA_REPR'' \<and> ''DATA_REPR_note'' \<noteq> ''dimensions''
   \<and> \<not> str_contains ''.Trash'' ''/temp/DATA_REPR_note''
   \<and> readdir noted_ncfs ''/temp'' =
         Inr [''.'', ''..'', ''units'', ''DATA_REPR_note'', ''DATA_REPR'']
   \<and> get_attribute noted_ncfs ''/temp/DATA_REPR_note'' = Inr ''raw''
   \<and> repr_size (attr_repr noted_ncfs) ''raw'' = 4
   \<and> repr_call (attr_repr noted_ncfs) ''raw'' = ''raw\<newline>''
   \<and> \<not> is_var_attribute noted_ncfs ''/temp/DATA_REPR_note''
   \<and> getattr sample_host noted_ncfs ''/temp/DATA_REPR_note'' =
         Inr ((default_stat sample_host noted_ncfs)\<lparr>st_size := 8\<rparr>)
   \<and> read noted_ncfs ''/temp/DATA_REPR_note'' 4 0 = Inr ''1.0\<newline>''"
  by (simp add: getattr_def read_def readdir_def Let_def path_defs default_stat_def
      slice_def slice_index_def noted_ncfs_def noted_dataset_def noted_variable_def
      NCFS_init_def VardataAsFlatTextFiles_def VardataAsFlatTextFiles_size_def
      VardataAsFlatTextFiles_call_def AttributesAsTextFiles_def AttributesAsTextFiles_size_def
      AttributesAsTextFiles_call_def sample_char_mod_def sample_str_def sample_host_def)

text \<open>
  Where none of the three substrings occurs, the attribute is served: for every variable
  name \<open>v\<close> of a dataset with valid names and every segment \<open>x\<close> (no \<open>/\<close> in it) such
  that the path \<open>/v/x\<close> contains none of \<open>DATA_REPR\<close>, \<open>dimensions\<close> and \<open>.Trash\<close>,
  \<open>getattr\<close> reports the regular-file record with the size the attribute representation
  gives for the attribute \<open>x\<close> of \<open>v\<close>, \<open>read\<close> returns the window of that attribute's
  representation, and both raise the lookup error when \<open>v\<close> has no attribute \<open>x\<close>.
\<close>

lemma attribute_path_dispatch:
  assumes names: "valid_names (dataset self)"
    and var: "map_of (variables (dataset self)) v = Some var"
    and seg: "CHR ''/'' \<notin> set x"
    and data: "\<not> str_contains ''DATA_REPR'' (CHR ''/'' # v @ CHR ''/'' # x)"
    and dims: "\<not> str_contains ''dimensions'' (CHR ''/'' # v @ CHR ''/'' # x)"
    and trash: "\<not> str_contains ''.Trash'' (CHR ''/'' # v @ CHR ''/'' # x)"
  shows "is_var_attribute self (CHR ''/'' # v @ CHR ''/'' # x)
    \<and> getattr os self (CHR ''/'' # v @ CHR ''/'' # x) =
        (case getncattr var x of
           Inl e \<Rightarrow> Inl e
         | Inr attr \<Rightarrow> Inr ((default_stat os self)\<lparr>st_size := repr_size (attr_repr self) attr\<rparr>))
    \<and> read self (CHR ''/'' # v @ CHR ''/'' # x) sz off =
        (case getncattr var x of
           Inl e \<Rightarrow> Inl e
         | Inr attr \<Rightarrow> Inr (slice off (off + sz) (repr_call (attr_repr self) attr)))"
proof -
  let ?p = "v @ CHR ''/'' # x"
  let ?path = "CHR ''/'' # ?p"
  have v: "v \<noteq> []" "CHR ''/'' \<notin> set v"
    using valid_names_lookup [OF names var] by simp_all
  then have hd: "hd ?p \<noteq> CHR ''/''" by (cases v) auto
  have strip_p: "lstrip CHR ''/'' ?p = ?p"
    using hd by (intro lstrip_keeps) simp_all
  have strip: "lstrip CHR ''/'' ?path = ?p"
    by (simp only: lstrip_Cons_same strip_p)
  have nodir: "\<not> variables_contains (dataset self) ?p"
    using names by (rule valid_names_no_slash) simp
  have sub: "\<not> str_contains ''DATA_REPR'' ?p" "\<not> str_contains ''dimensions'' ?p"
    "\<not> str_contains ''.Trash'' ?p"
    using data dims trash by auto
  have attr_raw: "is_var_attribute self ?path"
    using data dims trash nodir
    by (simp add: is_var_attribute_def is_var_dir_def is_var_data_def is_var_dimensions_def strip)
  have attr_p: "is_var_attribute self ?p" "\<not> is_var_dir self ?p" "\<not> is_blacklisted ?p"
    using sub nodir
    by (simp_all add: is_var_attribute_def is_var_dir_def is_var_data_def is_var_dimensions_def
        is_blacklisted_def strip_p)
  have varname: "get_varname ?path = v" "get_varname ?p = v"
    using hd_split_max [OF v(2), of 0 x] by (simp_all add: get_varname_def strip strip_p)
  have attrname: "get_attrname ?path = x" "get_attrname ?p = x"
    using last_split [OF seg, of "CHR ''/'' # v"] last_split [OF seg, of v]
    by (simp_all add: get_attrname_def)
  have lookup: "get_attribute self ?path = getncattr var x"
    "get_attribute self ?p = getncattr var x"
    using var by (simp_all add: get_attribute_def varname attrname variables_getitem_def)
  have g: "getattr os self ?path =
        (case getncattr var x of
           Inl e \<Rightarrow> Inl e
         | Inr attr \<Rightarrow> Inr ((default_stat os self)\<lparr>st_size := repr_size (attr_repr self) attr\<rparr>))"
    using attr_p by (simp add: getattr_def Let_def strip exists_def lookup)
  have r: "read self ?path sz off =
        (case getncattr var x of
           Inl e \<Rightarrow> Inl e
         | Inr attr \<Rightarrow> Inr (slice off (off + sz) (repr_call (attr_repr self) attr)))"
    using attr_raw by (simp add: read_def lookup)
  show ?thesis using attr_raw g r by simp
qed

text \<open>The same at \<open>/temp/units\<close> of the example.\<close>

lemma attribute_path_dispatch_witness:
  "valid_names (dataset sample_ncfs)
   \<and> map_of (variables (dataset sample_ncfs)) ''temp'' = Some temp_variable
   \<and> CHR ''/'' \<notin> set ''units''
   \<and> \<not> str_contains ''DATA_REPR'' ''/temp/units''
   \<and> \<not> str_contains ''dimensions'' ''/temp/units''
   \<and> \<not> str_contains ''.Trash'' ''/temp/units''
   \<and> is_var_attribute sample_ncfs ''/temp/units''
   \<and> getattr sample_host sample_ncfs ''/temp/units'' =
         Inr ((default_stat sample_host sample_ncfs)\<lparr>st_size := 2\<rparr>)
   \<and> read sample_ncfs ''/temp/units'' 1 1 = Inr ''\<newline>''"
proof -
  have names: "valid_names (dataset sample_ncfs)"
    by (simp add: valid_names_def sample_defs temp_defs)
  have var: "map_of (variables (dataset sample_ncfs)) ''temp'' = Some temp_variable"
    by (simp add: sample_defs temp_ncfs_def NCFS_init_def temp_dataset_def)
  have seg: "CHR ''/'' \<notin> set ''units''" by simp
  have sub: "\<not> str_contains ''DATA_REPR'' (CHR ''/'' # ''temp'' @ CHR ''/'' # ''units'')"
    "\<not> str_contains ''dimensions'' (CHR ''/'' # ''temp'' @ CHR ''/'' # ''units'')"
    "\<not> str_contains ''.Trash'' (CHR ''/'' # ''temp'' @ CHR ''/'' # ''units'')" by simp_all
  have a: "getncattr temp_variable ''units'' = Inr ''K''"
    by (simp add: getncattr_def temp_variable_def)
  have r: "attr_repr sample_ncfs = AttributesAsTextFiles sample_str"
    by (simp add: sample_defs temp_ncfs_def NCFS_init_def)
  show ?thesis
    using names var seg sub
      attribute_path_dispatch [OF names var seg sub, of sample_host 1 1]
    by (simp add: a r AttributesAsTextFiles_def AttributesAsTextFiles_size_def
        AttributesAsTextFiles_call_def sample_str_def slice_def slice_index_def)
qed

section \<open>The branches that should never happen\<close>

text \<open>
  C2 on the code: \<open>/temp/dimensions\<close> is a path the specification classifies (as the
  dimensions node of \<open>temp\<close>), and \<open>getattr\<close> ends in its \<open>InternalError\<close> branch for
  it; \<open>open\<close> succeeds on it and on the blacklisted \<open>/.Trash-1000\<close>, and \<open>read\<close> ends in
  its \<open>InternalError\<close> branch for both.
\<close>

theorem internal_error_reached:
  "getattr sample_host sample_ncfs ''/temp/dimensions'' =
     Inl (InternalError ''getattr: unexpected path temp/dimensions'')
   \<and> open_ncfs sample_ncfs ''/temp/dimensions'' flags = Inr 0
   \<and> read sample_ncfs ''/temp/dimensions'' 4096 0 =
     Inl (InternalError ''read: unexpected path /temp/dimensions'')
   \<and> open_ncfs sample_ncfs ''/.Trash-1000'' flags = Inr 0
   \<and> read sample_ncfs ''/.Trash-1000'' 4096 0 =
     Inl (InternalError ''read: unexpected path /.Trash-1000'')"
  by (simp add: getattr_def read_def open_ncfs_def Let_def path_defs temp_defs sample_defs)

section \<open>Windowed reads\<close>



section \<open>Opening\<close>

text \<open>\<open>open\<close> succeeds exactly on what \<open>is_file\<close> accepts, which is everything but a
  variable directory.\<close>

lemma open_ncfs_succeeds_iff: "open_ncfs self path flags = Inr 0 \<longleftrightarrow> is_file self path"
  by (simp add: open_ncfs_def)

lemma open_root: "valid_names (dataset self) \<Longrightarrow> open_ncfs self ''/'' flags = Inr 0"
proof -
  assume names: "valid_names (dataset self)"
  have "\<not> variables_contains (dataset self) []"
  proof
    assume "variables_contains (dataset self) []"
    then obtain var where "map_of (variables (dataset self)) [] = Some var"
      by (auto simp: variables_contains_def)
    then show False using valid_names_lookup [OF names] by blast
  qed
  then show ?thesis
    by (simp add: open_ncfs_def is_file_def is_dir_def is_var_dir_def lstrip_def)
qed

text \<open>
  C6 on the code: opening the root succeeds, although \<open>getattr\<close> reports the root as a
  directory (mode \<open>0o40755 = 16877\<close>); and opening the variable directory \<open>/temp\<close> raises
  \<open>NameError\<close> for the misspelt \<open>FuseOSOSError\<close>, not the error the statement was
  written to raise.
\<close>

theorem open_root_succeeds:
  "open_ncfs sample_ncfs ''/'' flags = Inr 0
   \<and> getattr sample_host sample_ncfs ''/'' =
       Inr ((default_stat sample_host sample_ncfs)\<lparr>st_mode := 16877\<rparr>)
   \<and> open_ncfs sample_ncfs ''/temp'' flags = Inl (NameError ''FuseOSOSError'')"
  by (simp add: getattr_def open_ncfs_def Let_def path_defs temp_defs sample_defs
      default_stat_def makeIntoDir_def read_to_exec_def)

section \<open>The example, end to end\<close>

text \<open>
  C7: on the dataset with the one variable \<open>temp\<close> (attribute \<open>units = "K"\<close>, payload
  \<open>[1.0, 2.0]\<close>), flat text with the format \<open>%.1f\<close>, and a library that formats the two
  values as \<open>1.0\<close> and \<open>2.0\<close> and the string \<open>K\<close> as itself: \<open>getattr\<close> of \<open>/temp\<close> reports
  a directory (mode \<open>0o40755 = 16877\<close>); \<open>/temp/units\<close> has size 2 and content
  \<open>K\<close> and a newline; \<open>/temp/DATA_REPR\<close> has size 8 and content \<open>1.0\<close>, \<open>2.0\<close>, one per
  line; listing \<open>/temp\<close> gives \<open>.\<close>, \<open>..\<close>, \<open>units\<close>, \<open>DATA_REPR\<close> and listing \<open>/\<close> gives
  \<open>.\<close>, \<open>..\<close>, \<open>temp\<close>.
\<close>

theorem temp_end_to_end:
  assumes "char_mod ''%.1f\<newline>'' [1, 2] = [''1.0\<newline>'', ''2.0\<newline>'']"
    and "str ''K'' = ''K''"
  shows "getattr os (temp_ncfs char_mod str now) ''/temp'' =
           Inr ((default_stat os (temp_ncfs char_mod str now))\<lparr>st_mode := 16877\<rparr>)
    \<and> getattr os (temp_ncfs char_mod str now) ''/temp/units'' =
           Inr ((default_stat os (temp_ncfs char_mod str now))\<lparr>st_size := 2\<rparr>)
    \<and> read (temp_ncfs char_mod str now) ''/temp/units'' 2 0 = Inr ''K\<newline>''
    \<and> getattr os (temp_ncfs char_mod str now) ''/temp/DATA_REPR'' =
           Inr ((default_stat os (temp_ncfs char_mod str now))\<lparr>st_size := 8\<rparr>)
    \<and> read (temp_ncfs char_mod str now) ''/temp/DATA_REPR'' 8 0 = Inr ''1.0\<newline>2.0\<newline>''
    \<and> readdir (temp_ncfs char_mod str now) ''/temp'' = Inr [''.'', ''..'', ''units'', ''DATA_REPR'']
    \<and> readdir (temp_ncfs char_mod str now) ''/'' = Inr [''.'', ''..'', ''temp'']"
  using assms
  by (simp add: getattr_def read_def readdir_def Let_def path_defs temp_defs default_stat_def
      makeIntoDir_def read_to_exec_def slice_def slice_index_def)

text \<open>C7 with the stand-ins for the library.\<close>

theorem temp_end_to_end_witness:
  "sample_char_mod ''%.1f\<newline>'' [1, 2] = [''1.0\<newline>'', ''2.0\<newline>'']
   \<and> sample_str ''K'' = ''K''
   \<and> getattr sample_host sample_ncfs ''/temp'' =
         Inr ((default_stat sample_host sample_ncfs)\<lparr>st_mode := 16877\<rparr>)
   \<and> getattr sample_host sample_ncfs ''/temp/units'' =
         Inr ((default_stat sample_host sample_ncfs)\<lparr>st_size := 2\<rparr>)
   \<and> read sample_ncfs ''/temp/units'' 2 0 = Inr ''K\<newline>''
   \<and> getattr sample_host sample_ncfs ''/temp/DATA_REPR'' =
         Inr ((default_stat sample_host sample_ncfs)\<lparr>st_size := 8\<rparr>)
   \<and> read sample_ncfs ''/temp/DATA_REPR'' 8 0 = Inr ''1.0\<newline>2.0\<newline>''
   \<and> readdir sample_ncfs ''/temp'' = Inr [''.'', ''..'', ''units'', ''DATA_REPR'']
   \<and> readdir sample_ncfs ''/'' = Inr [''.'', ''..'', ''temp'']"
proof -
  have f: "sample_char_mod ''%.1f\<newline>'' [1, 2] = [''1.0\<newline>'', ''2.0\<newline>'']"
    by (simp add: sample_char_mod_def)
  have k: "sample_str ''K'' = ''K''"
    by (simp add: sample_str_def)
  show ?thesis
    using f k
      temp_end_to_end [where char_mod = sample_char_mod and str = sample_str
        and os = sample_host and now = 0, OF f k]
    by (simp only: sample_ncfs_def)
qed

section \<open>Writing\<close>

text \<open>
  C8, as the specification states it, fails: the caller would be told that writes are
  unsupported. The only thing \<open>write\<close> hands back is its result, and for the two bytes
  written to \<open>/temp/units\<close> that is the count 2, the result of a write that stored
  everything, and not an error.
\<close>

theorem write_tells_unsupported_counterexample:
  "fst (write_ncfs sample_ncfs ''/temp/units'' ''C\<newline>'' 0) = Inr 2
   \<and> \<not> isl (fst (write_ncfs sample_ncfs ''/temp/units'' ''C\<newline>'' 0))"
  by (simp add: write_ncfs_def)

text \<open>
  C8, amended: for every path, data and offset, \<open>write\<close> returns the length of the data
  and leaves the object as it was, so every later \<open>getattr\<close>, \<open>readdir\<close>, \<open>open\<close> and
  \<open>read\<close> gives what it would have given without the write; the caller gets the result
  of a complete write and nothing that says writes are unsupported.
\<close>

theorem write_discards:
  "fst (write_ncfs self path data offset) = Inr (int (length data))
   \<and> snd (write_ncfs self path data offset) = self
   \<and> getattr os (snd (write_ncfs self path data offset)) p = getattr os self p
   \<and> readdir (snd (write_ncfs self path data offset)) p = readdir self p
   \<and> open_ncfs (snd (write_ncfs self path data offset)) p flags = open_ncfs self p flags
   \<and> read (snd (write_ncfs self path data offset)) p sz off = read self p sz off"
  by (simp add: write_ncfs_def)

section \<open>Blacklisted paths\<close>

text \<open>
  C9: for every path that contains \<open>.Trash\<close>, \<open>getattr\<close> succeeds with the default
  regular-file record (mode \<open>0o100644 = 33188\<close>, size 4096, one link, the mount time and
  the ids of the process), and the result is the same whatever dataset the object holds.
\<close>

theorem getattr_blacklisted:
  assumes "str_contains ''.Trash'' path"
  shows "getattr os self path =
           Inr \<lparr>st_atime = mount_time self, st_ctime = mount_time self, st_gid = getgid os,
                st_mode = 33188, st_mtime = mount_time self, st_nlink = 1, st_size = 4096,
                st_uid = getuid os\<rparr>
         \<and> getattr os (self\<lparr>dataset := ds'\<rparr>) path = getattr os self path"
proof -
  have c: "str_contains ''.Trash'' (lstrip CHR ''/'' path)"
    using assms by (rule str_contains_lstrip) simp_all
  then have n: "lstrip CHR ''/'' path \<noteq> []"
    by (rule str_contains_nonempty) simp
  show ?thesis
    using c n by (simp add: getattr_def Let_def is_blacklisted_def default_stat_def)
qed

text \<open>C9 at \<open>/.Trash-1000/files\<close>, with the example dataset and with an empty one.\<close>

theorem getattr_blacklisted_witness:
  "str_contains ''.Trash'' ''/.Trash-1000/files''
   \<and> getattr sample_host sample_ncfs ''/.Trash-1000/files'' =
           Inr \<lparr>st_atime = 0, st_ctime = 0, st_gid = 1000,
                st_mode = 33188, st_mtime = 0, st_nlink = 1, st_size = 4096,
                st_uid = 1000\<rparr>
   \<and> getattr sample_host (sample_ncfs\<lparr>dataset := \<lparr>variables = []\<rparr>\<rparr>) ''/.Trash-1000/files''
       = getattr sample_host sample_ncfs ''/.Trash-1000/files''"
proof -
  have h: "str_contains ''.Trash'' ''/.Trash-1000/files''" by simp
  show ?thesis
    using h getattr_blacklisted [OF h, of sample_host sample_ncfs "\<lparr>variables = []\<rparr>"]
    by (simp add: sample_host_def sample_ncfs_def temp_ncfs_def NCFS_init_def)
qed

end
